theory Spec2Isabelle
  imports Main "HOL-Library.Word"
begin

section \<open>face\_detection.py: boxes, selector and proximity test\<close>

text \<open>
  A bounding box is the tuple \<open>(left, top, right, bottom)\<close> that the loops of
  \<open>get_closest_face\<close> and \<open>face_detected\<close> unpack. The tuples are built by
  \<open>detect_face_and_landmarks_mtcnn\<close> from the rows \<open>r.astype(int)\<close> of the detector's
  array, so each coordinate is a 64-bit signed integer of numpy, whose arithmetic
  wraps around.
\<close>

type_synonym bbox = "64 word \<times> 64 word \<times> 64 word \<times> 64 word"

text \<open>The exceptions that the modelled code can raise, with their argument.\<close>

datatype error = NameError string | KeyError string | OSError string | IOError string

text \<open>
  The expression \<open>(right - left) * (bottom - top)\<close>, written inline in both loops
  (\<open>top'\<close> stands for the source's \<open>top\<close>, a constant of HOL): the differences and
  the product are taken in 64 bits, and the result is read as a signed number when it
  is compared.
\<close>

fun box_area :: "bbox \<Rightarrow> int" where
  "box_area (left, top', right, bottom) = sint ((right - left) * (bottom - top'))"

text \<open>
  The loop of \<open>get_closest_face\<close>: the remaining boxes, then the loop variables
  \<open>i\<close>, \<open>max_id\<close> and \<open>face_area\<close>.
\<close>

fun closest_loop :: "bbox list \<Rightarrow> nat \<Rightarrow> nat \<Rightarrow> int \<Rightarrow> nat" where
  "closest_loop [] i max_id face_area = max_id"
| "closest_loop (bb # bbs) i max_id face_area =
     (let tmp_face_area = box_area bb in
      if tmp_face_area > face_area
      then closest_loop bbs (i + 1) i tmp_face_area
      else closest_loop bbs (i + 1) max_id face_area)"

text \<open>
  \<open>get_closest_face\<close> starts the loop at \<open>i = 0\<close>, \<open>max_id = 0\<close>, \<open>face_area = 0\<close>
  and returns \<open>max_id\<close>. The outcome of a call is an exception or a value; the body
  has no \<open>raise\<close>, so the outcome is always a value.
\<close>

definition get_closest_face :: "bbox list \<Rightarrow> error + nat" where
  "get_closest_face bbs = Inr (closest_loop bbs 0 0 0)"

definition FACE_AREA :: int where
  "FACE_AREA = 1500"

text \<open>The loop of \<open>face_detected\<close>: the remaining boxes and the variable \<open>face_area\<close>.\<close>

fun detected_loop :: "bbox list \<Rightarrow> int \<Rightarrow> int" where
  "detected_loop [] face_area = face_area"
| "detected_loop (bb # bbs) face_area =
     (let tmp_face_area = box_area bb in
      if tmp_face_area > face_area
      then detected_loop bbs tmp_face_area
      else detected_loop bbs face_area)"

definition face_detected :: "bbox list \<Rightarrow> bool" where
  "face_detected bbs = (if detected_loop bbs 0 > FACE_AREA then True else False)"

section \<open>face\_detection.py: the main loop\<close>

text \<open>
  The two module-level variables that persist from frame to frame:
  \<open>face_nearby\<close> (initially \<open>False\<close>) and \<open>no_face_detect_counter\<close> (initially 0).
\<close>

record tracker =
  face_nearby :: bool
  no_face_detect_counter :: int

definition initial_tracker :: tracker where
  "initial_tracker = \<lparr>face_nearby = False, no_face_detect_counter = 0\<rparr>"

text \<open>
  The counting branch, which the loop body has twice (for an empty detection list
  and for a list without a near face): increment, then compare with 3.
\<close>

definition count_miss :: "tracker \<Rightarrow> tracker" where
  "count_miss st =
     (let st1 = st\<lparr>no_face_detect_counter := no_face_detect_counter st + 1\<rparr> in
      if no_face_detect_counter st1 > 3 then st1\<lparr>face_nearby := False\<rparr> else st1)"

text \<open>
  The part of the loop body that updates the two variables from the boxes of one
  frame: the \<open>len(total_boxes) is 0\<close> branch and the \<open>face_detected\<close> test.
\<close>

definition presence_update :: "tracker \<Rightarrow> bbox list \<Rightarrow> tracker" where
  "presence_update st total_boxes =
     (if length total_boxes = 0 then count_miss st
      else if face_detected total_boxes then st\<lparr>face_nearby := True\<rparr>
      else count_miss st)"

text \<open>
  What a name of the module can be bound to, as far as the loop body reads it:
  \<open>None\<close>, a boolean, an integer, or any other object (module, function, array,
  string, float), which is opaque here.
\<close>

datatype pyval = PNone | PBool bool | PInt int | PObj

fun truthy :: "pyval \<Rightarrow> bool" where
  "truthy PNone = False"
| "truthy (PBool b) = b"
| "truthy (PInt n) = (n \<noteq> 0)"
| "truthy PObj = True"

text \<open>The names bound by the \<open>import\<close> statements at the top of the module.\<close>

definition imported_names :: "string list" where
  "imported_names =
     [''sys'', ''np'', ''cv2'', ''os'', ''misc'', ''time'', ''re'', ''pickle'',
      ''start_new_thread'', ''tf'', ''detect_face'', ''pyrs'']"

text \<open>The names bound by the \<open>def\<close> statements of the module.\<close>

definition function_names :: "string list" where
  "function_names =
     [''detect_face_and_landmarks_mtcnn'', ''align_face_mtcnn'', ''draw_rects'',
      ''draw_landmarks'', ''get_closest_face'', ''face_detected'', ''recognize_face'',
      ''load_model'', ''get_model_filenames'']"

text \<open>
  The names that the entry point binds to objects before and inside the loop, up to
  the detection of the current frame (\<open>draw\<close> and \<open>start_recognize_face\<close> are
  assigned later in the loop body only).
\<close>

definition main_object_names :: "string list" where
  "main_object_names =
     [''dev'', ''sess'', ''pnet'', ''rnet'', ''onet'', ''threshold'', ''factor'',
      ''tree_model'', ''svm_model'', ''clf'', ''model_dir'', ''meta_file'',
      ''ckpt_file'', ''session'', ''graph'', ''image_batch'',
      ''phase_train_placeholder'', ''embeddings'', ''c'', ''d'', ''img'', ''d_img'',
      ''total_boxes'', ''points'']"

text \<open>
  The global namespace of the module when the loop body has updated the two
  presence variables for a frame: the names above, the module attributes set by the
  interpreter, and the integer and boolean variables with their values.
\<close>

definition module_globals :: "tracker \<Rightarrow> (string \<times> pyval) list" where
  "module_globals st =
     map (\<lambda>n. (n, PObj)) (imported_names @ function_names @ main_object_names) @
     [(''__name__'', PObj), (''__file__'', PObj), (''__builtins__'', PObj),
      (''__doc__'', PNone), (''__package__'', PNone),
      (''EXPECT_SIZE'', PInt 160), (''FACE_AREA'', PInt FACE_AREA),
      (''x_pixel'', PInt 640), (''y_pixel'', PInt 480), (''resize_factor'', PObj),
      (''minsize'', PInt 20),
      (''face_nearby'', PBool (face_nearby st)),
      (''no_face_detect_counter'', PInt (no_face_detect_counter st))]"

text \<open>The built-in namespace of Python 2, which a name lookup consults after the globals.\<close>

definition builtin_object_names :: "string list" where
  "builtin_object_names =
     [''ArithmeticError'', ''AssertionError'', ''AttributeError'', ''BaseException'',
      ''BufferError'', ''BytesWarning'', ''DeprecationWarning'', ''EOFError'',
      ''Ellipsis'', ''EnvironmentError'', ''Exception'', ''FloatingPointError'',
      ''FutureWarning'', ''GeneratorExit'', ''IOError'', ''ImportError'',
      ''ImportWarning'', ''IndentationError'', ''IndexError'', ''KeyError'',
      ''KeyboardInterrupt'', ''LookupError'', ''MemoryError'', ''NameError'',
      ''NotImplemented'', ''NotImplementedError'', ''OSError'', ''OverflowError'',
      ''PendingDeprecationWarning'', ''ReferenceError'', ''RuntimeError'',
      ''RuntimeWarning'', ''StandardError'', ''StopIteration'', ''SyntaxError'',
      ''SyntaxWarning'', ''SystemError'', ''SystemExit'', ''TabError'', ''TypeError'',
      ''UnboundLocalError'', ''UnicodeDecodeError'', ''UnicodeEncodeError'',
      ''UnicodeError'', ''UnicodeTranslateError'', ''UnicodeWarning'', ''UserWarning'',
      ''ValueError'', ''Warning'', ''ZeroDivisionError'', ''__import__'', ''abs'',
      ''all'', ''any'', ''apply'', ''basestring'', ''bin'', ''bool'', ''buffer'',
      ''bytearray'', ''bytes'', ''callable'', ''chr'', ''classmethod'', ''cmp'',
      ''coerce'', ''compile'', ''complex'', ''copyright'', ''credits'', ''delattr'',
      ''dict'', ''dir'', ''divmod'', ''enumerate'', ''eval'', ''execfile'', ''exit'',
      ''file'', ''filter'', ''float'', ''format'', ''frozenset'', ''getattr'',
      ''globals'', ''hasattr'', ''hash'', ''help'', ''hex'', ''id'', ''input'',
      ''int'', ''intern'', ''isinstance'', ''issubclass'', ''iter'', ''len'',
      ''license'', ''list'', ''locals'', ''long'', ''map'', ''max'', ''memoryview'',
      ''min'', ''next'', ''object'', ''oct'', ''open'', ''ord'', ''pow'', ''print'',
      ''property'', ''quit'', ''range'', ''raw_input'', ''reduce'', ''reload'',
      ''repr'', ''reversed'', ''round'', ''set'', ''setattr'', ''slice'', ''sorted'',
      ''staticmethod'', ''str'', ''sum'', ''super'', ''tuple'', ''type'', ''unichr'',
      ''unicode'', ''vars'', ''xrange'', ''zip'']"

definition builtins :: "(string \<times> pyval) list" where
  "builtins =
     [(''True'', PBool True), (''False'', PBool False), (''None'', PNone),
      (''__debug__'', PBool True), (''__doc__'', PObj), (''__name__'', PObj),
      (''__package__'', PNone)] @
     map (\<lambda>n. (n, PObj)) builtin_object_names"

text \<open>
  Reading a name at module level: the globals, then the built-ins, else
  \<open>NameError\<close>.
\<close>

definition lookup_name :: "tracker \<Rightarrow> string \<Rightarrow> error + pyval" where
  "lookup_name st n =
     (case map_of (module_globals st) n of
        Some v \<Rightarrow> Inr v
      | None \<Rightarrow> (case map_of builtins n of
                   Some v \<Rightarrow> Inr v
                 | None \<Rightarrow> Inl (NameError n)))"

text \<open>
  The calls of the loop body that act on the outside: showing a window, waiting for
  a key, drawing, and starting the recognition thread on the box of a given index.
\<close>

datatype effect = ImShow | WaitKey | DrawRects | DrawLandmarks | StartRecognizeThread nat

text \<open>
  One pass through the loop body, from the detection result \<open>total_boxes\<close> of the
  frame: the effects performed, and either the exception that ends the program
  (nothing catches it) or the variables with which the next pass starts.
  With an empty list the pass ends at \<open>continue\<close>. Otherwise the assignment
  \<open>start_recognize_face = false\<close> reads the name \<open>false\<close>; the thread is started
  when the value read is true.
\<close>

definition frame_step :: "tracker \<Rightarrow> bbox list \<Rightarrow> effect list \<times> (error + tracker)" where
  "frame_step st total_boxes =
     (if length total_boxes = 0 then ([ImShow, WaitKey], Inr (count_miss st))
      else
        let st1 = (if face_detected total_boxes then st\<lparr>face_nearby := True\<rparr>
                   else count_miss st) in
        case lookup_name st1 ''false'' of
          Inl e \<Rightarrow> ([], Inl e)
        | Inr start_recognize_face \<Rightarrow>
            if truthy start_recognize_face then
              (case get_closest_face total_boxes of
                 Inl e \<Rightarrow> ([], Inl e)
               | Inr k \<Rightarrow>
                   ([StartRecognizeThread k, DrawRects, DrawLandmarks, ImShow, WaitKey],
                    Inr st1))
            else ([DrawRects, DrawLandmarks, ImShow, WaitKey], Inr st1))"

text \<open>
  The \<open>while True\<close> loop on the detection results of the frames that the camera
  delivers, in order: the variables after each pass that reaches the next frame, and
  the exception that ended the program, if one did. A pass that raises hands nothing
  on, and the frames after it are not processed.
\<close>

fun run_frames :: "tracker \<Rightarrow> bbox list list \<Rightarrow> tracker list \<times> error option" where
  "run_frames st [] = ([], None)"
| "run_frames st (total_boxes # frames) =
     (case snd (frame_step st total_boxes) of
        Inl e \<Rightarrow> ([], Some e)
      | Inr st1 \<Rightarrow> (st1 # fst (run_frames st1 frames), snd (run_frames st1 frames)))"

section \<open>face\_recognizer.py\<close>

text \<open>
  The file system as the calls of the module see it. A path names a regular file
  with its contents, a directory, or nothing. Whatever else makes the operating
  system refuse a call on a path (a missing or unwritable parent directory, missing
  permissions, a read-only or full file system) is the table \<open>fault\<close>: the error
  code with which the given kind of call on the given path is refused, if it is.
\<close>

datatype node = File string | Directory

datatype syscall = Stat | Mknod | OpenRead | Unlink

record filesys =
  nodes :: "string \<rightharpoonup> node"
  fault :: "syscall \<Rightarrow> string \<Rightarrow> string option"

text \<open>
  \<open>os.path.exists\<close>: true when \<open>os.stat\<close> succeeds, for a file and for a directory;
  false when it fails for any reason.
\<close>

definition os_path_exists :: "filesys \<Rightarrow> string \<Rightarrow> bool" where
  "os_path_exists files p = (fault files Stat p = None \<and> nodes files p \<noteq> None)"

text \<open>
  \<open>os.mknod\<close> creates an empty regular file. It raises \<open>OSError\<close> when the operating
  system refuses the call, and when the path exists.
\<close>

definition os_mknod :: "filesys \<Rightarrow> string \<Rightarrow> error + filesys" where
  "os_mknod files p =
     (case fault files Mknod p of
        Some errno \<Rightarrow> Inl (OSError errno)
      | None \<Rightarrow>
          if nodes files p \<noteq> None then Inl (OSError ''EEXIST'')
          else Inr (files\<lparr>nodes := (nodes files)(p \<mapsto> File [])\<rparr>))"

text \<open>
  \<open>os.remove\<close> raises \<open>OSError\<close> when the operating system refuses the call, when
  there is nothing at the path, and when the path is a directory.
\<close>

definition os_remove :: "filesys \<Rightarrow> string \<Rightarrow> error + filesys" where
  "os_remove files p =
     (case fault files Unlink p of
        Some errno \<Rightarrow> Inl (OSError errno)
      | None \<Rightarrow>
          (case nodes files p of
             None \<Rightarrow> Inl (OSError ''ENOENT'')
           | Some Directory \<Rightarrow> Inl (OSError ''EISDIR'')
           | Some (File s) \<Rightarrow> Inr (files\<lparr>nodes := (nodes files)(p := None)\<rparr>)))"

text \<open>
  \<open>open(p, 'r')\<close> followed by \<open>read()\<close>: the whole contents of a regular file, or
  \<open>IOError\<close> when the operating system refuses, when there is nothing at the path, and
  when the path is a directory.
\<close>

definition open_read :: "filesys \<Rightarrow> string \<Rightarrow> error + string" where
  "open_read files p =
     (case fault files OpenRead p of
        Some errno \<Rightarrow> Inl (IOError errno)
      | None \<Rightarrow>
          (case nodes files p of
             None \<Rightarrow> Inl (IOError ''ENOENT'')
           | Some Directory \<Rightarrow> Inl (IOError ''EISDIR'')
           | Some (File s) \<Rightarrow> Inr s))"




text \<open>
  What \<open>check_file\<close> does, in order: creating a file, testing a path for existence
  (with the answer), sleeping (\<open>sleep(0.1)\<close>, that is 100 milliseconds), reading a file
  whole, removing a file. A call that raises is not recorded.
\<close>

datatype event =
  Created string | Polled string bool | Slept_ms nat | ReadAll string | Removed string

text \<open>
  The polling loop of \<open>check_file\<close>. The other processes act on the files while this
  one sleeps: \<open>env k\<close> is what they do to the files during the sleep numbered \<open>k\<close>.
  The loop returns the number of sleeps, the files and the record of what was done once
  \<open>PATH + 'out'\<close> exists; it does not return when that never happens.
\<close>

partial_function (option) wait_for_out ::
  "string \<Rightarrow> (nat \<Rightarrow> filesys \<Rightarrow> filesys) \<Rightarrow> nat \<Rightarrow> filesys \<Rightarrow> event list \<Rightarrow>
   (nat \<times> filesys \<times> event list) option" where
  "wait_for_out PATH env k files done =
     (if \<not> os_path_exists files (PATH @ ''out'')
      then wait_for_out PATH env (Suc k) (env k files)
             (done @ [Polled (PATH @ ''out'') False, Slept_ms 100])
      else Some (k, files, done @ [Polled (PATH @ ''out'') True]))"

text \<open>
  \<open>check_file\<close>: the exception raised or the name returned, the files left behind and
  the record of what was done; \<open>None\<close> when the call does not return.
\<close>

definition check_file ::
  "string \<Rightarrow> (nat \<Rightarrow> filesys \<Rightarrow> filesys) \<Rightarrow> filesys \<Rightarrow> 'a \<Rightarrow>
   ((error + string) \<times> filesys \<times> event list) option" where
  "check_file PATH env files object_id =
     (case os_mknod files (PATH @ ''request'') of
        Inl e \<Rightarrow> Some (Inl e, files, [])
      | Inr files1 \<Rightarrow>
          (case wait_for_out PATH env 0 files1 [Created (PATH @ ''request'')] of
             None \<Rightarrow> None
           | Some (k, files2, done) \<Rightarrow>
               (case open_read files2 (PATH @ ''out'') of
                  Inl e \<Rightarrow> Some (Inl e, files2, done)
                | Inr name \<Rightarrow>
                    (case os_remove files2 (PATH @ ''out'') of
                       Inl e \<Rightarrow> Some (Inl e, files2, done @ [ReadAll (PATH @ ''out'')])
                     | Inr files3 \<Rightarrow>
                         Some (Inr name, files3,
                               done @ [ReadAll (PATH @ ''out''), Removed (PATH @ ''out'')])))))"

section \<open>Notions used to state the properties\<close>

text \<open>
  The area of a box in the data model, \<open>(right - left) * (bottom - top)\<close> over the
  integers, and the invariant of a box, \<open>left < right\<close> and \<open>top < bottom\<close>.
\<close>

definition spec_area :: "bbox \<Rightarrow> int" where
  "spec_area bb =
     (case bb of (left, top', right, bottom) \<Rightarrow>
        (sint right - sint left) * (sint bottom - sint top'))"

definition well_formed :: "bbox \<Rightarrow> bool" where
  "well_formed bb =
     (case bb of (left, top', right, bottom) \<Rightarrow>
        sint left < sint right \<and> sint top' < sint bottom)"

text \<open>The area of a box is a number that 64 signed bits hold.\<close>

definition area_fits :: "bbox \<Rightarrow> bool" where
  "area_fits bb = (- (2 ^ 63) \<le> spec_area bb \<and> spec_area bb < 2 ^ 63)"

text \<open>
  The \<open>maxArea\<close> of the presence tracker's description: the area of the largest box
  of the list, and 0 for the empty list.
\<close>

definition spec_max_area :: "bbox list \<Rightarrow> int" where
  "spec_max_area bbs = (if bbs = [] then 0 else Max (set (map spec_area bbs)))"

text \<open>The files after \<open>n\<close> sleeps that start with the sleep numbered \<open>k\<close>.\<close>

fun after_sleeps ::
  "(nat \<Rightarrow> filesys \<Rightarrow> filesys) \<Rightarrow> nat \<Rightarrow> nat \<Rightarrow> filesys \<Rightarrow> filesys" where
  "after_sleeps env k 0 files = files"
| "after_sleeps env k (Suc n) files = after_sleeps env (Suc k) n (env k files)"







section \<open>The presence variables\<close>

lemma presence_update_near:
  assumes "face_detected total_boxes"
  shows "presence_update st total_boxes = st\<lparr>face_nearby := True\<rparr>"
proof -
  have "total_boxes \<noteq> []"
    using assms by (auto simp: face_detected_def FACE_AREA_def)
  with assms show ?thesis by (simp add: presence_update_def)
qed

text \<open>
  C1. The claim: on a frame whose largest box area exceeds the threshold, the update
  sets \<open>no_face_detect_counter\<close> to 0 and the state to Present. The code sets
  \<open>face_nearby\<close> but leaves the counter as it was: from counter 2, a frame with one
  box of area 2000 gives counter 2, not 0.
\<close>

theorem presence_update_keeps_counter:
  "presence_update \<lparr>face_nearby = False, no_face_detect_counter = 2\<rparr> [(0, 0, 50, 40)] =
     \<lparr>face_nearby = True, no_face_detect_counter = 2\<rparr>"
  by (simp add: presence_update_def face_detected_def FACE_AREA_def)

section \<open>The loop body\<close>

lemma false_unbound: "lookup_name st ''false'' = Inl (NameError ''false'')"
  by (simp add: lookup_name_def module_globals_def builtins_def imported_names_def
      function_names_def main_object_names_def builtin_object_names_def)

text \<open>
  C7. For every frame whose detection list is not empty, the pass through the loop body
  ends with \<open>NameError\<close> for the name \<open>false\<close>, whatever the presence variables are, and
  none of the effects that follow the assignment (the recognition thread, the drawing,
  the window, the key wait) is performed.
\<close>

theorem frame_step_NameError:
  "total_boxes \<noteq> [] \<Longrightarrow> frame_step st total_boxes = ([], Inl (NameError ''false''))"
  by (simp add: frame_step_def Let_def false_unbound)

text \<open>C7 on the first frame of a run, with one box of area 2000.\<close>

theorem frame_step_NameError_witness:
  "[(0, 0, 50, 40)] \<noteq> ([] :: bbox list) \<and>
   frame_step initial_tracker [(0, 0, 50, 40)] = ([], Inl (NameError ''false''))"
  using frame_step_NameError [of "[(0, 0, 50, 40)]" initial_tracker] by simp

section \<open>Runs of the loop\<close>

lemma frame_step_nonempty:
  "total_boxes \<noteq> [] \<Longrightarrow> snd (frame_step st total_boxes) = Inl (NameError ''false'')"
  by (simp add: frame_step_def Let_def false_unbound)

lemma frame_step_empty: "snd (frame_step st []) = Inr (count_miss st)"
  by (simp add: frame_step_def)



lemma count_miss_absent: "\<not> face_nearby st \<Longrightarrow> \<not> face_nearby (count_miss st)"
  by (simp add: count_miss_def Let_def)

lemma run_frames_never_present:
  "\<not> face_nearby st \<Longrightarrow> s \<in> set (fst (run_frames st frames)) \<Longrightarrow> \<not> face_nearby s"
proof (induction frames arbitrary: st)
  case Nil
  then show ?case by simp
next
  case (Cons total_boxes frames)
  show ?case
  proof (cases "total_boxes = []")
    case False
    with Cons.prems show ?thesis by (simp add: frame_step_nonempty)
  next
    case True
    with Cons.prems have "s = count_miss st \<or> s \<in> set (fst (run_frames (count_miss st) frames))"
      by (simp add: frame_step_empty)
    then show ?thesis
      using Cons.IH [of "count_miss st"] count_miss_absent [OF Cons.prems(1)] by blast
  qed
qed

text \<open>
  C2. The claim: from the initial variables, frames with largest areas
  50, 2000, 2000, 2000, 50, 50, 50, 50 give the presence sequence
  Absent, Present, Present, Present, Present, Present, Present, Absent.
  The loop does not get that far: the first frame has a box, its pass raises
  \<open>NameError\<close>, and the program ends without a pass completed.
\<close>

theorem presence_scenario_run:
  "run_frames initial_tracker
     [[(0, 0, 10, 5)], [(0, 0, 50, 40)], [(0, 0, 50, 40)], [(0, 0, 50, 40)],
      [(0, 0, 10, 5)], [(0, 0, 10, 5)], [(0, 0, 10, 5)], [(0, 0, 10, 5)]] =
   ([], Some (NameError ''false''))"
  by (simp add: frame_step_nonempty)



section \<open>The selector\<close>

text \<open>
  C4. The claim: \<open>get_closest_face\<close> fails with an error on the empty list.
  The loop body never runs on the empty list and the function returns the initial
  \<open>max_id\<close>: no exception is raised.
\<close>

theorem get_closest_face_empty_no_error:
  "\<not> isl (get_closest_face [])"
  by (simp add: get_closest_face_def)

text \<open>C4, as the code has it: on the empty list \<open>get_closest_face\<close> returns the index 0.\<close>

theorem get_closest_face_empty:
  "get_closest_face [] = Inr 0"
  by (simp add: get_closest_face_def)

lemma box_area_word: "box_area bb = sint (word_of_int (spec_area bb) :: 64 word)"
  by (cases bb) (simp add: spec_area_def)

lemma box_area_fits: "area_fits bb \<Longrightarrow> box_area bb = spec_area bb"
  unfolding box_area_word area_fits_def
  by (simp add: sint_sbintrunc' signed_take_bit_int_eq_self)

lemma well_formed_area: "well_formed bb \<Longrightarrow> 0 < spec_area bb"
  by (cases bb) (simp add: well_formed_def spec_area_def)

lemma closest_loop_cases:
  "(closest_loop bbs i m a = m \<and> (\<forall>b\<in>set bbs. box_area b \<le> a)) \<or>
   (\<exists>j<length bbs. closest_loop bbs i m a = i + j \<and> a < box_area (bbs ! j) \<and>
      (\<forall>k<length bbs. box_area (bbs ! k) \<le> box_area (bbs ! j)) \<and>
      (\<forall>k<j. box_area (bbs ! k) < box_area (bbs ! j)))"
proof (induction bbs arbitrary: i m a)
  case Nil
  then show ?case by simp
next
  case (Cons bb bbs)
  show ?case
  proof (cases "a < box_area bb")
    case True
    from Cons.IH [of "i + 1" i "box_area bb"] show ?thesis
    proof
      assume h: "closest_loop bbs (i + 1) i (box_area bb) = i \<and> (\<forall>b\<in>set bbs. box_area b \<le> box_area bb)"
      have "\<forall>k<length (bb # bbs). box_area ((bb # bbs) ! k) \<le> box_area bb"
        using h by (auto simp: nth_Cons split: nat.splits)
      with h True have "0 < length (bb # bbs) \<and> closest_loop (bb # bbs) i m a = i + 0 \<and> a < box_area ((bb # bbs) ! 0) \<and>
        (\<forall>k<length (bb # bbs). box_area ((bb # bbs) ! k) \<le> box_area ((bb # bbs) ! 0)) \<and>
        (\<forall>k<0. box_area ((bb # bbs) ! k) < box_area ((bb # bbs) ! 0))"
        by simp
      then show ?thesis by blast
    next
      assume "\<exists>j<length bbs. closest_loop bbs (i + 1) i (box_area bb) = i + 1 + j \<and> box_area bb < box_area (bbs ! j) \<and>
        (\<forall>k<length bbs. box_area (bbs ! k) \<le> box_area (bbs ! j)) \<and>
        (\<forall>k<j. box_area (bbs ! k) < box_area (bbs ! j))"
      then obtain j where j: "j < length bbs" "closest_loop bbs (i + 1) i (box_area bb) = i + 1 + j"
        "box_area bb < box_area (bbs ! j)"
        "\<forall>k<length bbs. box_area (bbs ! k) \<le> box_area (bbs ! j)"
        "\<forall>k<j. box_area (bbs ! k) < box_area (bbs ! j)" by blast
      have "Suc j < length (bb # bbs) \<and> closest_loop (bb # bbs) i m a = i + Suc j \<and> a < box_area ((bb # bbs) ! Suc j) \<and>
        (\<forall>k<length (bb # bbs). box_area ((bb # bbs) ! k) \<le> box_area ((bb # bbs) ! Suc j)) \<and>
        (\<forall>k<Suc j. box_area ((bb # bbs) ! k) < box_area ((bb # bbs) ! Suc j))"
        using j True by (auto simp: nth_Cons less_Suc_eq_0_disj split: nat.splits)
      then show ?thesis by blast
    qed
  next
    case False
    from Cons.IH [of "i + 1" m a] show ?thesis
    proof
      assume "closest_loop bbs (i + 1) m a = m \<and> (\<forall>b\<in>set bbs. box_area b \<le> a)"
      with False show ?thesis by simp
    next
      assume "\<exists>j<length bbs. closest_loop bbs (i + 1) m a = i + 1 + j \<and> a < box_area (bbs ! j) \<and>
        (\<forall>k<length bbs. box_area (bbs ! k) \<le> box_area (bbs ! j)) \<and>
        (\<forall>k<j. box_area (bbs ! k) < box_area (bbs ! j))"
      then obtain j where j: "j < length bbs" "closest_loop bbs (i + 1) m a = i + 1 + j"
        "a < box_area (bbs ! j)"
        "\<forall>k<length bbs. box_area (bbs ! k) \<le> box_area (bbs ! j)"
        "\<forall>k<j. box_area (bbs ! k) < box_area (bbs ! j)" by blast
      have "Suc j < length (bb # bbs) \<and> closest_loop (bb # bbs) i m a = i + Suc j \<and> a < box_area ((bb # bbs) ! Suc j) \<and>
        (\<forall>k<length (bb # bbs). box_area ((bb # bbs) ! k) \<le> box_area ((bb # bbs) ! Suc j)) \<and>
        (\<forall>k<Suc j. box_area ((bb # bbs) ! k) < box_area ((bb # bbs) ! Suc j))"
        using j False by (auto simp: nth_Cons less_Suc_eq_0_disj split: nat.splits)
      then show ?thesis by blast
    qed
  qed
qed

text \<open>
  C5. The claim: for every non-empty list of boxes with \<open>left < right\<close> and
  \<open>top < bottom\<close>, \<open>get_closest_face\<close> returns the lowest index of a box of greatest area.
  The area is computed in 64 bits: the second box here has the area \<open>2 ^ 64\<close>, which
  wraps around to 0, and the index 0 of the smaller box is returned.
\<close>

theorem get_closest_face_wraps:
  "well_formed (0, 0, 10, 10) \<and> well_formed (0, 0, 4294967296, 4294967296) \<and>
   spec_area (0, 0, 10, 10) < spec_area (0, 0, 4294967296, 4294967296) \<and>
   get_closest_face [(0, 0, 10, 10), (0, 0, 4294967296, 4294967296)] = Inr 0"
  by (simp add: well_formed_def spec_area_def get_closest_face_def)

text \<open>
  C5, as the code has it. For every non-empty list of boxes that all satisfy
  \<open>left < right\<close> and \<open>top < bottom\<close> and have an area below \<open>2 ^ 63\<close>,
  \<open>get_closest_face\<close> returns an index \<open>i\<close> of the list whose box has the greatest area,
  and every box before \<open>i\<close> has a strictly smaller area: \<open>i\<close> is the lowest index of a
  box of maximal area.
\<close>

theorem get_closest_face_lowest_max:
  assumes "bbs \<noteq> []" and "\<forall>bb\<in>set bbs. well_formed bb \<and> spec_area bb < 2 ^ 63"
  shows "\<exists>i<length bbs. get_closest_face bbs = Inr i \<and>
           (\<forall>k<length bbs. spec_area (bbs ! k) \<le> spec_area (bbs ! i)) \<and>
           (\<forall>k<i. spec_area (bbs ! k) < spec_area (bbs ! i))"
proof -
  have same: "box_area bb = spec_area bb" if "bb \<in> set bbs" for bb
  proof (rule box_area_fits)
    from that assms(2) have "0 < spec_area bb" "spec_area bb < 2 ^ 63"
      by (auto dest: well_formed_area)
    then show "area_fits bb" by (simp add: area_fits_def)
  qed
  then have nth: "box_area (bbs ! k) = spec_area (bbs ! k)" if "k < length bbs" for k
    using that by simp
  from assms obtain bb where "bb \<in> set bbs" "0 < box_area bb"
    by (metis well_formed_area same last_in_set)
  then have "\<not> (\<forall>b\<in>set bbs. box_area b \<le> 0)"
    by (simp add: not_le) (rule bexI [of _ bb], simp_all)
  with closest_loop_cases [of bbs 0 0 0] obtain j where j: "j < length bbs"
    "closest_loop bbs 0 0 0 = j"
    "\<forall>k<length bbs. box_area (bbs ! k) \<le> box_area (bbs ! j)"
    "\<forall>k<j. box_area (bbs ! k) < box_area (bbs ! j)"
    by auto
  have "\<forall>k<length bbs. spec_area (bbs ! k) \<le> spec_area (bbs ! j)"
    using j(1) j(3) nth by simp
  moreover have "\<forall>k<j. spec_area (bbs ! k) < spec_area (bbs ! j)"
    using j(1) j(4) nth by simp
  ultimately show ?thesis
    using j(1) j(2) by (auto simp: get_closest_face_def)
qed

text \<open>
  C5 on a list with a tie: the boxes at indices 1 and 2 both have the maximal area 400,
  and index 1 is returned.
\<close>

theorem get_closest_face_lowest_max_witness:
  "[(0, 0, 10, 10), (0, 0, 20, 20), (5, 5, 25, 25)] \<noteq> ([] :: bbox list) \<and>
   well_formed (0, 0, 10, 10) \<and> well_formed (0, 0, 20, 20) \<and> well_formed (5, 5, 25, 25) \<and>
   spec_area (0, 0, 10, 10) = 100 \<and> spec_area (0, 0, 20, 20) = 400 \<and>
   spec_area (5, 5, 25, 25) = 400 \<and>
   get_closest_face [(0, 0, 10, 10), (0, 0, 20, 20), (5, 5, 25, 25)] = Inr 1"
  using get_closest_face_lowest_max [of "[(0, 0, 10, 10), (0, 0, 20, 20), (5, 5, 25, 25)]"]
  by (simp add: well_formed_def spec_area_def get_closest_face_def)

section \<open>The proximity test\<close>

lemma detected_loop_fold: "detected_loop bbs a = fold max (map box_area bbs) a"
  by (induction bbs arbitrary: a) (simp_all add: max_def)

lemma detected_loop_Max: "detected_loop bbs a = Max (set (a # map box_area bbs))"
  by (simp only: detected_loop_fold Max.set_eq_fold)

text \<open>
  C6. The claim: for every list of boxes, \<open>face_detected\<close> returns \<open>True\<close> exactly when
  the maximum box area of the list is greater than \<open>FACE_AREA\<close>. The area is computed in
  64 bits: the box here has the area \<open>2 ^ 64\<close>, far above 1500, which wraps around to 0,
  and \<open>face_detected\<close> returns \<open>False\<close>.
\<close>

theorem face_detected_wraps:
  "\<not> face_detected [(0, 0, 4294967296, 4294967296)] \<and>
   FACE_AREA < spec_max_area [(0, 0, 4294967296, 4294967296)]"
  by (simp add: face_detected_def spec_max_area_def spec_area_def FACE_AREA_def)

text \<open>
  C6, as the code has it. For every list of boxes whose areas are numbers that 64 signed
  bits hold, \<open>face_detected\<close> returns \<open>True\<close> exactly when the maximum box area of the
  list (0 for the empty list) is strictly greater than \<open>FACE_AREA\<close>, which is 1500.
\<close>

theorem face_detected_iff_max_area:
  assumes "\<forall>bb\<in>set bbs. area_fits bb"
  shows "face_detected bbs = (spec_max_area bbs > FACE_AREA) \<and> FACE_AREA = 1500"
proof (cases "bbs = []")
  case True
  then show ?thesis by (simp add: face_detected_def spec_max_area_def FACE_AREA_def)
next
  case False
  have same: "map box_area bbs = map spec_area bbs"
    using assms by (simp add: box_area_fits)
  from False have ne: "set (map spec_area bbs) \<noteq> {}" by simp
  have "detected_loop bbs 0 = Max (insert 0 (set (map spec_area bbs)))"
    by (simp only: detected_loop_Max same list.set)
  also have "\<dots> = max 0 (Max (set (map spec_area bbs)))"
    using ne by (rule Max_insert [OF List.finite_set])
  finally have "detected_loop bbs 0 = max 0 (spec_max_area bbs)"
    using False by (simp add: spec_max_area_def)
  then show ?thesis
    by (simp add: face_detected_def FACE_AREA_def max_def)
qed

text \<open>C6 on a list with a far and a near face, and on the empty list.\<close>

theorem face_detected_iff_max_area_witness:
  "area_fits (0, 0, 10, 5) \<and> area_fits (0, 0, 50, 40) \<and>
   spec_max_area [(0, 0, 10, 5), (0, 0, 50, 40)] = 2000 \<and>
   face_detected [(0, 0, 10, 5), (0, 0, 50, 40)] \<and> \<not> face_detected []"
proof -
  have fits: "area_fits (0, 0, 10, 5)" "area_fits (0, 0, 50, 40)"
    by (simp_all add: area_fits_def spec_area_def)
  then have all: "\<forall>bb\<in>set [(0, 0, 10, 5), (0, 0, 50, 40)]. area_fits bb"
    by simp
  have m: "spec_max_area [(0, 0, 10, 5), (0, 0, 50, 40)] = 2000"
    by (simp add: spec_max_area_def spec_area_def)
  have m0: "spec_max_area [] = 0"
    by (simp add: spec_max_area_def)
  from face_detected_iff_max_area [OF all]
  have near: "face_detected [(0, 0, 10, 5), (0, 0, 50, 40)]"
    by (simp only: m) simp
  from face_detected_iff_max_area [of "[]"]
  have far: "\<not> face_detected []"
    by (simp only: m0 list.set ball_empty) simp
  from fits m near far show ?thesis by simp
qed

section \<open>The client of the file protocol\<close>


lemma wait_for_out_Some_exists:
  assumes "wait_for_out PATH env k files done = Some r"
  shows "\<exists>n. os_path_exists (after_sleeps env k n files) (PATH @ ''out'')"
proof (rule wait_for_out.raw_induct
    [where P = "\<lambda>PATH env k files done r.
        \<exists>n. os_path_exists (after_sleeps env k n files) (PATH @ ''out'')",
     OF _ assms])
  fix f :: "string \<Rightarrow> (nat \<Rightarrow> filesys \<Rightarrow> filesys) \<Rightarrow> nat \<Rightarrow> filesys \<Rightarrow> event list \<Rightarrow>
      (nat \<times> filesys \<times> event list) option"
    and PATH env k files "done" r
  assume IH: "\<And>PATH env k files done r. f PATH env k files done = Some r \<Longrightarrow>
      \<exists>n. os_path_exists (after_sleeps env k n files) (PATH @ ''out'')"
    and step: "(if \<not> os_path_exists files (PATH @ ''out'')
      then f PATH env (Suc k) (env k files)
             (done @ [Polled (PATH @ ''out'') False, Slept_ms 100])
      else Some (k, files, done @ [Polled (PATH @ ''out'') True])) = Some r"
  show "\<exists>n. os_path_exists (after_sleeps env k n files) (PATH @ ''out'')"
  proof (cases "os_path_exists files (PATH @ ''out'')")
    case True
    then have "os_path_exists (after_sleeps env k 0 files) (PATH @ ''out'')" by simp
    then show ?thesis by blast
  next
    case False
    with step have "f PATH env (Suc k) (env k files)
        (done @ [Polled (PATH @ ''out'') False, Slept_ms 100]) = Some r" by simp
    from IH [OF this] obtain n where
      "os_path_exists (after_sleeps env (Suc k) n (env k files)) (PATH @ ''out'')" by blast
    then have "os_path_exists (after_sleeps env k (Suc n) files) (PATH @ ''out'')" by simp
    then show ?thesis by blast
  qed
qed

lemma check_file_never_returns:
  assumes "os_mknod files (PATH @ ''request'') = Inr files1"
    and "\<forall>n. \<not> os_path_exists (after_sleeps env 0 n files1) (PATH @ ''out'')"
  shows "check_file PATH env files object_id = None"
proof -
  have "wait_for_out PATH env 0 files1 [Created (PATH @ ''request'')] = None"
  proof (cases "wait_for_out PATH env 0 files1 [Created (PATH @ ''request'')]")
    case None
    then show ?thesis .
  next
    case (Some r)
    from wait_for_out_Some_exists [OF this] assms(2) show ?thesis by simp
  qed
  with assms(1) show ?thesis by (simp add: check_file_def)
qed




section \<open>The start of the recognizer process\<close>






text \<open>
  C10. Two calls of \<open>check_file\<close> with different arguments, on the same files and with the
  same behaviour of the other processes, have the same outcome: the same label or
  exception, the same files afterwards and the same record of what was done, or both do
  not return.
\<close>

theorem check_file_ignores_object_id:
  "check_file PATH env files object_id = check_file PATH env files object_id'"
  by (simp add: check_file_def)

end
